theory Spec2Isabelle
  imports Complex_Main
begin

section \<open>Python values used by the risk agent\<close>

text \<open>
  The scoring pipeline works on Python \<^verbatim>\<open>int\<close>s (unbounded, modelled as \<^typ>\<open>int\<close>),
  \<^verbatim>\<open>float\<close>s and \<^verbatim>\<open>str\<close>s. A finite float is modelled by the real number it
  denotes and float arithmetic by exact arithmetic: the rounding error of a single IEEE
  operation is outside this model. Where the source converts a float with \<^verbatim>\<open>int(...)\<close>
  the non-finite floats matter, because \<^verbatim>\<open>int(nan)\<close> raises; coordinates therefore
  use the type \<open>pyfloat\<close> below, which keeps them.
\<close>

subsection \<open>Strings\<close>

definition ascii_upper :: string where
  "ascii_upper = ''ABCDEFGHIJKLMNOPQRSTUVWXYZ''"

definition ascii_lower :: string where
  "ascii_lower = ''abcdefghijklmnopqrstuvwxyz''"

definition lower_char :: "char \<Rightarrow> char" where
  "lower_char c = (case map_of (zip ascii_upper ascii_lower) c of None \<Rightarrow> c | Some d \<Rightarrow> d)"

text \<open>\<^verbatim>\<open>s.lower()\<close> on the ASCII letters; other bytes are left alone.\<close>

definition lower :: "string \<Rightarrow> string" where
  "lower s = map lower_char s"

fun startswith :: "string \<Rightarrow> string \<Rightarrow> bool" where
  "startswith s [] = True"
| "startswith [] (p # ps) = False"
| "startswith (c # cs) (p # ps) = (c = p \<and> startswith cs ps)"

text \<open>\<^verbatim>\<open>needle in hay\<close> for two strings: \<open>needle\<close> occurs as a contiguous part.\<close>

fun str_in :: "string \<Rightarrow> string \<Rightarrow> bool" where
  "str_in needle [] = (needle = [])"
| "str_in needle (c # cs) = (startswith (c # cs) needle \<or> str_in needle cs)"



subsection \<open>Numbers\<close>

text \<open>
  \<^verbatim>\<open>round(x)\<close> of Python 3 rounds to the nearest integer and a tie to the even one;
  \<^verbatim>\<open>round(x, n)\<close> does the same at \<open>n\<close> decimals; \<^verbatim>\<open>int(x)\<close> truncates towards zero.
\<close>

definition py_round :: "real \<Rightarrow> int" where
  "py_round x =
     (let f = \<lfloor>x\<rfloor>; d = x - of_int f
      in if d < 1/2 then f else if 1/2 < d then f + 1 else if even f then f else f + 1)"

definition py_round_ndigits :: "real \<Rightarrow> nat \<Rightarrow> real" where
  "py_round_ndigits x n = of_int (py_round (x * 10 ^ n)) / 10 ^ n"

definition py_trunc :: "real \<Rightarrow> int" where
  "py_trunc x = (if 0 \<le> x then \<lfloor>x\<rfloor> else \<lceil>x\<rceil>)"

text \<open>\<^verbatim>\<open>d.get(k, default)\<close> on a dictionary.\<close>

definition dict_get :: "('k \<rightharpoonup> 'v) \<Rightarrow> 'k \<Rightarrow> 'v \<Rightarrow> 'v" where
  "dict_get d k dflt = (case d k of None \<Rightarrow> dflt | Some v \<Rightarrow> v)"

text \<open>The same for a field of a record that stands for a dictionary with known keys.\<close>

definition field_get :: "'v option \<Rightarrow> 'v \<Rightarrow> 'v" where
  "field_get f dflt = (case f of None \<Rightarrow> dflt | Some v \<Rightarrow> v)"

datatype pyfloat = Finite real | PosInf | NegInf | NaN

section \<open>Data model\<close>

text \<open>
  The resolvers hand dictionaries with a fixed set of keys to the scorer, which reads every
  key with \<^verbatim>\<open>.get(key, default)\<close>. Each dictionary is a record whose fields are options:
  \<open>None\<close> is an absent key. The key \<^verbatim>\<open>"source"\<close> of the crime dictionary is the
  field \<open>crime_source\<close>, that of the geolocation dictionary is \<open>geo_source\<close>.
\<close>

record crime_data =
  violent_crime_index :: "int option"
  property_crime_index :: "int option"
  recent_incidents :: "int option"
  crime_source :: "string option"
  total_incidents_analyzed :: "int option"
  data_period_days :: "int option"

record geo_data =
  latitude :: "pyfloat option"
  longitude :: "pyfloat option"
  neighborhood_type :: "string option"
  population_density :: "int option"
  nearby_risks :: "string list option"
  geo_source :: "string option"
  formatted_address :: "string option"


section \<open>core/aggregation\<close>

definition compute_overall_score ::
  "(string \<rightharpoonup> int) \<Rightarrow> crime_data \<Rightarrow> geo_data \<Rightarrow> real \<times> real" where
  "compute_overall_score dims crime geo =
     (let score = of_int (dict_get dims ''crime_risk'' 0) * (35 / 100)
                + of_int (dict_get dims ''property_exposure_risk'' 0) * (25 / 100)
                + of_int (dict_get dims ''accessibility_risk'' 0) * (15 / 100)
                + of_int (dict_get dims ''neighborhood_risk'' 0) * (15 / 100)
                + of_int (dict_get dims ''operational_risk'' 0) * (10 / 100);
          score = py_round_ndigits score 2;
          score = max 0 (min 100 score);
          c_src = field_get (crime_source crime) ''simulated'';
          g_src = field_get (geo_source geo) ''simulated'';
          confidence =
            (if c_src \<noteq> ''simulated'' \<and> g_src \<noteq> ''simulated'' then 1
             else if c_src = ''simulated'' \<and> g_src \<noteq> ''simulated'' then 7 / 10
             else 5 / 10)
      in (score, confidence))"

section \<open>core/recommendations\<close>

definition generate_recommendations :: "real \<Rightarrow> string list" where
  "generate_recommendations score =
     (if score > 75 then
        [''Install advanced CCTV with remote monitoring'',
         ''Deploy regular security patrols'',
         ''Add smart perimeter lighting'',
         ''Upgrade fences and gates'',
         ''Enable controlled access systems'']
      else if score > 60 then
        [''Install 1080p CCTV cameras'',
         ''Enable motion-activated lighting'',
         ''Improve fencing and gate systems'']
      else if score > 40 then
        [''Install basic CCTV'',
         ''Improve door/window locks'',
         ''Trim shrubs to increase visibility'']
      else [''Basic home security recommended''])"

section \<open>core/scoring-engine\<close>


section \<open>tools/property-info-tool\<close>


section \<open>The outside world of the resolvers\<close>

text \<open>
  The two resolvers call HTTP services, a geocoding client and the random number
  generator. What these return is a parameter of the model, the record \<open>world\<close>; what the
  resolvers do with it is modelled from the source. Every request and every geocoder call
  is appended to \<open>calls\<close>, and every random draw advances \<open>rng_pos\<close>, so a resolver
  takes the world and returns it updated. Source functions whose names begin with an
  underscore lose it here.
\<close>

datatype exn = ValueError | OverflowError | GeocoderError

datatype call = Get string | Geocode string

text \<open>
  The outcome of \<^verbatim>\<open>requests.get\<close> followed by \<^verbatim>\<open>response.json()\<close>: the request raised
  (a timeout, a transport error), or it came back with a status code and a payload. The
  payload of a city portal is a list of rows, each a dictionary of strings; \<open>None\<close> is a
  payload that is not one (decoding it, or reading a row, raises).
\<close>

datatype http_result = RequestError | Reply nat "(string \<rightharpoonup> string) list option"

record google_hit =
  hit_lat :: pyfloat
  hit_lng :: pyfloat
  hit_formatted_address :: "string option"

record location =
  loc_latitude :: pyfloat
  loc_longitude :: pyfloat
  loc_address :: "string option"

record photon_feature =
  coordinates :: "pyfloat list"
  prop_name :: "string option"
  prop_city :: "string option"
  prop_country :: "string option"

text \<open>
  \<open>google_geocode\<close> and \<open>photon_geocode\<close> give the first result of the provider for an
  address, \<open>None\<close> when the request fails, the status is not 200, the provider reports no
  result or the payload is malformed: the source returns \<^verbatim>\<open>None\<close> in each of these
  cases. \<open>nominatim_geocode\<close> is \<^verbatim>\<open>geolocator.geocode\<close>, which returns a location or
  \<^verbatim>\<open>None\<close>, or raises.
\<close>

record world =
  calls :: "call list"
  rng :: "nat \<Rightarrow> nat"
  rng_pos :: nat
  GOOGLE_MAPS_API_KEY :: "string option"
  google_geocode :: "string \<Rightarrow> google_hit option"
  nominatim_geocode :: "string \<Rightarrow> exn + location option"
  photon_geocode :: "string \<Rightarrow> photon_feature option"
  seven_days_ago :: string
  chicago_dated :: http_result
  chicago_undated :: http_result
  nyc_reply :: http_result
  la_reply :: http_result
  sf_reply :: http_result

definition record_call :: "call \<Rightarrow> world \<Rightarrow> world" where
  "record_call c w = w\<lparr>calls := calls w @ [c]\<rparr>"

definition next_rand :: "world \<Rightarrow> nat \<times> world" where
  "next_rand w = (rng w (rng_pos w), w\<lparr>rng_pos := rng_pos w + 1\<rparr>)"

text \<open>\<^verbatim>\<open>random.randint(lo, hi)\<close>: an integer of the closed range.\<close>

definition randint :: "int \<Rightarrow> int \<Rightarrow> world \<Rightarrow> int \<times> world" where
  "randint lo hi w =
     (let (r, w1) = next_rand w in (lo + int (r mod nat (hi - lo + 1)), w1))"


subsection \<open>Float operations on coordinates\<close>

text \<open>A float is false in a condition when it is zero; \<^verbatim>\<open>nan\<close> and the infinities are true.\<close>

definition f_truthy :: "pyfloat \<Rightarrow> bool" where
  "f_truthy x = (x \<noteq> Finite 0)"

fun f_abs :: "pyfloat \<Rightarrow> pyfloat" where
  "f_abs (Finite r) = Finite \<bar>r\<bar>"
| "f_abs PosInf = PosInf"
| "f_abs NegInf = PosInf"
| "f_abs NaN = NaN"



text \<open>\<^verbatim>\<open>lo <= x <= hi\<close> for finite constants.\<close>

fun f_between :: "real \<Rightarrow> pyfloat \<Rightarrow> real \<Rightarrow> bool" where
  "f_between lo (Finite r) hi = (lo \<le> r \<and> r \<le> hi)"
| "f_between lo PosInf hi = False"
| "f_between lo NegInf hi = False"
| "f_between lo NaN hi = False"

text \<open>\<^verbatim>\<open>x + c\<close>, \<^verbatim>\<open>x * c\<close> and \<^verbatim>\<open>x % 1\<close> for a finite constant \<open>c\<close>.\<close>

fun f_plus :: "pyfloat \<Rightarrow> real \<Rightarrow> pyfloat" where
  "f_plus (Finite r) c = Finite (r + c)"
| "f_plus PosInf c = PosInf"
| "f_plus NegInf c = NegInf"
| "f_plus NaN c = NaN"

fun f_times :: "pyfloat \<Rightarrow> real \<Rightarrow> pyfloat" where
  "f_times (Finite r) c = Finite (r * c)"
| "f_times PosInf c = (if 0 < c then PosInf else if c < 0 then NegInf else NaN)"
| "f_times NegInf c = (if 0 < c then NegInf else if c < 0 then PosInf else NaN)"
| "f_times NaN c = NaN"

fun f_mod1 :: "pyfloat \<Rightarrow> pyfloat" where
  "f_mod1 (Finite r) = Finite (r - of_int \<lfloor>r\<rfloor>)"
| "f_mod1 PosInf = NaN"
| "f_mod1 NegInf = NaN"
| "f_mod1 NaN = NaN"

text \<open>\<^verbatim>\<open>int(x)\<close> raises on a float that is not finite.\<close>

fun py_int :: "pyfloat \<Rightarrow> exn + int" where
  "py_int (Finite r) = Inr (py_trunc r)"
| "py_int PosInf = Inl OverflowError"
| "py_int NegInf = Inl OverflowError"
| "py_int NaN = Inl ValueError"

definition then_exn :: "exn + 'a \<Rightarrow> ('a \<Rightarrow> exn + 'b) \<Rightarrow> exn + 'b" where
  "then_exn m f = (case m of Inl e \<Rightarrow> Inl e | Inr v \<Rightarrow> f v)"

section \<open>tools/fallback\<close>

definition simulate_crime :: "world \<Rightarrow> crime_data \<times> world" where
  "simulate_crime w =
     (let (v, w1) = randint 20 80 w;
          (p, w2) = randint 15 70 w1;
          (r, w3) = randint 0 10 w2
      in (\<lparr>violent_crime_index = Some v, property_crime_index = Some p,
            recent_incidents = Some r, crime_source = Some ''simulated'',
            total_incidents_analyzed = None, data_period_days = None\<rparr>, w3))"


section \<open>tools/geolocation-tool\<close>










section \<open>tools/crime-data-tool\<close>

definition chicago_url :: string where
  "chicago_url = ''https://data.cityofchicago.org/resource/ijzp-q8t2.json''"

definition los_angeles_url :: string where
  "los_angeles_url = ''https://data.lacity.org/resource/y9pe-qdrd.json''"

definition new_york_url :: string where
  "new_york_url = ''https://data.cityofnewyork.us/resource/qgea-i56i.json''"

definition san_francisco_url :: string where
  "san_francisco_url = ''https://data.sfgov.org/resource/wg3w-h783.json''"

definition city_priority :: "string list" where
  "city_priority = [''san francisco'', ''los angeles'', ''new york'', ''philadelphia'', ''chicago'']"

definition detect_city_from_address :: "string \<Rightarrow> string option" where
  "detect_city_from_address address =
     (if address = [] then None
      else (let address_lower = lower address
            in find (\<lambda>city. str_in city address_lower) city_priority))"

text \<open>\<^verbatim>\<open>a or b\<close> on two strings, and \<^verbatim>\<open>a >= b\<close> as Python compares strings.\<close>

definition str_or :: "string \<Rightarrow> string \<Rightarrow> string" where
  "str_or a b = (if a \<noteq> [] then a else b)"

fun str_ge :: "string \<Rightarrow> string \<Rightarrow> bool" where
  "str_ge a [] = True"
| "str_ge [] (y # ys) = False"
| "str_ge (x # xs) (y # ys) =
     ((of_char y :: nat) < of_char x \<or> (x = y \<and> str_ge xs ys))"

text \<open>\<^verbatim>\<open>any(k in text for k in keywords)\<close>.\<close>

definition any_in :: "string list \<Rightarrow> string \<Rightarrow> bool" where
  "any_in keywords text = list_ex (\<lambda>k. str_in k text) keywords"

text \<open>
  The counting loop of the four city queries over the lower-cased description of each
  row: a row counts as violent, else as a property crime, else as neither.
\<close>

fun count_kinds :: "string list \<Rightarrow> string list \<Rightarrow> string list \<Rightarrow> nat \<times> nat \<Rightarrow> nat \<times> nat" where
  "count_kinds violent_words property_words [] (violent_count, property_count) =
     (violent_count, property_count)"
| "count_kinds violent_words property_words (d # ds) (violent_count, property_count) =
     count_kinds violent_words property_words ds
       (if any_in violent_words d then (violent_count + 1, property_count)
        else if any_in property_words d then (violent_count, property_count + 1)
        else (violent_count, property_count))"

text \<open>\<^verbatim>\<open>min(100, max(lowest, int(count / max(total, 1) * 100 * factor)))\<close>.\<close>

definition scaled_index :: "int \<Rightarrow> real \<Rightarrow> nat \<Rightarrow> nat \<Rightarrow> int" where
  "scaled_index lowest factor n total_count =
     min 100 (max lowest (py_trunc (real n / real (max total_count 1) * 100 * factor)))"

definition chicago_result :: "string \<Rightarrow> (string \<rightharpoonup> string) list \<Rightarrow> crime_data option" where
  "chicago_result since data =
     (if data = [] then None
      else
        (let total_recent =
               length (filter (\<lambda>crime. let crime_date = dict_get crime ''date'' []
                                        in crime_date \<noteq> [] \<and> str_ge crime_date since) data);
             (violent_count, property_count) =
               count_kinds
                 [''assault'', ''battery'', ''homicide'', ''robbery'', ''weapons'', ''criminal sexual'']
                 [''theft'', ''burglary'', ''motor vehicle theft'', ''arson'']
                 (map (\<lambda>crime. lower (str_or (dict_get crime ''primary_type'' [])
                                         (dict_get crime ''primary_type_description'' []))) data)
                 (0, 0);
             total_crimes = length data
         in Some \<lparr>violent_crime_index = Some (scaled_index 20 15 violent_count total_crimes),
                  property_crime_index = Some (scaled_index 15 15 property_count total_crimes),
                  recent_incidents = Some (min 30 (int total_recent)),
                  crime_source = Some ''chicago_api_realtime'',
                  total_incidents_analyzed = Some (int total_crimes),
                  data_period_days = Some 30\<rparr>))"

definition query_chicago_crime_api ::
  "world \<Rightarrow> pyfloat \<Rightarrow> pyfloat \<Rightarrow> crime_data option \<times> world" where
  "query_chicago_crime_api w lat lon =
     (let w1 = record_call (Get chicago_url) w
      in case chicago_dated w of
           RequestError \<Rightarrow> (None, w1)
         | Reply status payload \<Rightarrow>
             if status \<noteq> 200 then
               (let w2 = record_call (Get chicago_url) w1
                in case chicago_undated w of
                     RequestError \<Rightarrow> (None, w2)
                   | Reply status2 payload2 \<Rightarrow>
                       if status2 \<noteq> 200 then (None, w2)
                       else (case payload2 of
                               None \<Rightarrow> (None, w2)
                             | Some data \<Rightarrow> (chicago_result (seven_days_ago w) data, w2)))
             else (case payload of
                     None \<Rightarrow> (None, w1)
                   | Some data \<Rightarrow> (chicago_result (seven_days_ago w) data, w1)))"

text \<open>
  The queries for New York, Los Angeles and San Francisco differ in the address they
  fetch, the fields they read, their keywords, their scaling and their provenance tag.
\<close>

definition counted_result ::
  "string list \<Rightarrow> string list \<Rightarrow> int \<Rightarrow> int \<Rightarrow> real \<Rightarrow> string \<Rightarrow> string list \<Rightarrow>
   crime_data option" where
  "counted_result violent_words property_words lowest_violent lowest_property factor tag descs =
     (if descs = [] then None
      else
        (let (violent_count, property_count) =
               count_kinds violent_words property_words descs (0, 0);
             total_incidents = length descs
         in Some \<lparr>violent_crime_index = Some (scaled_index lowest_violent factor violent_count total_incidents),
                  property_crime_index = Some (scaled_index lowest_property factor property_count total_incidents),
                  recent_incidents = Some (min 20 (int total_incidents div 25)),
                  crime_source = Some tag,
                  total_incidents_analyzed = None,
                  data_period_days = None\<rparr>))"

definition single_request ::
  "string \<Rightarrow> http_result \<Rightarrow> ((string \<rightharpoonup> string) list \<Rightarrow> crime_data option) \<Rightarrow> world \<Rightarrow>
   crime_data option \<times> world" where
  "single_request url reply process w =
     (let w1 = record_call (Get url) w
      in case reply of
           RequestError \<Rightarrow> (None, w1)
         | Reply status payload \<Rightarrow>
             if status \<noteq> 200 then (None, w1)
             else (case payload of None \<Rightarrow> (None, w1) | Some data \<Rightarrow> (process data, w1)))"

definition query_nyc_crime_api ::
  "world \<Rightarrow> pyfloat \<Rightarrow> pyfloat \<Rightarrow> crime_data option \<times> world" where
  "query_nyc_crime_api w lat lon =
     single_request new_york_url (nyc_reply w)
       (\<lambda>data. counted_result
          [''assault'', ''murder'', ''rape'', ''robbery'', ''weapon'', ''felony'']
          [''theft'', ''burglary'', ''larceny'', ''auto'', ''misdemeanor'']
          25 20 15 ''nypd_api''
          (map (\<lambda>incident. lower (str_or (dict_get incident ''offense'' [])
                              (str_or (dict_get incident ''ofns_desc'' [])
                              (str_or (dict_get incident ''law_cat_cd'' [])
                                      (dict_get incident ''pd_desc'' []))))) data)) w"

definition query_la_crime_api ::
  "world \<Rightarrow> pyfloat \<Rightarrow> pyfloat \<Rightarrow> crime_data option \<times> world" where
  "query_la_crime_api w lat lon =
     single_request los_angeles_url (la_reply w)
       (\<lambda>data. counted_result
          [''assault'', ''homicide'', ''rape'', ''robbery'', ''weapon'']
          [''theft'', ''burglary'', ''auto'', ''larceny'']
          22 18 13 ''la_api''
          (map (\<lambda>crime. lower (str_or (dict_get crime ''crm_cd_desc'' [])
                                       (dict_get crime ''crm_cd'' []))) data)) w"

definition query_sf_crime_api ::
  "world \<Rightarrow> pyfloat \<Rightarrow> pyfloat \<Rightarrow> crime_data option \<times> world" where
  "query_sf_crime_api w lat lon =
     single_request san_francisco_url (sf_reply w)
       (\<lambda>data. counted_result
          [''assault'', ''homicide'', ''rape'', ''robbery'']
          [''theft'', ''burglary'', ''larceny'', ''vehicle'']
          20 15 11 ''sf_api''
          (map (\<lambda>crime. lower (str_or (dict_get crime ''category'' [])
                                       (dict_get crime ''incident_category'' []))) data)) w"

definition query_city_crime_api ::
  "world \<Rightarrow> string \<Rightarrow> pyfloat \<Rightarrow> pyfloat \<Rightarrow> crime_data option \<times> world" where
  "query_city_crime_api w city lat lon =
     (let city_lower = lower city
      in if str_in ''chicago'' city_lower then query_chicago_crime_api w lat lon
         else if str_in ''new york'' city_lower \<or> str_in ''nyc'' city_lower
           then query_nyc_crime_api w lat lon
         else if str_in ''los angeles'' city_lower \<or> str_in ''la'' city_lower
           then query_la_crime_api w lat lon
         else if str_in ''san francisco'' city_lower \<or> str_in ''sf'' city_lower
           then query_sf_crime_api w lat lon
         else (None, w))"

definition estimate :: "int \<Rightarrow> int \<Rightarrow> int \<Rightarrow> string \<Rightarrow> crime_data" where
  "estimate violent_index property_index recent tag =
     \<lparr>violent_crime_index = Some violent_index, property_crime_index = Some property_index,
      recent_incidents = Some recent, crime_source = Some tag,
      total_incidents_analyzed = None, data_period_days = None\<rparr>"

text \<open>
  The three regions after the first perturb their base values by the fractional part of a
  coordinate: \<^verbatim>\<open>base + int((coordinate % 1) * factor)\<close>.
\<close>

definition perturbed :: "int \<Rightarrow> pyfloat \<Rightarrow> real \<Rightarrow> exn + int" where
  "perturbed base coordinate factor =
     then_exn (py_int (f_times (f_mod1 coordinate) factor)) (\<lambda>offset. Inr (base + offset))"

definition get_crime_from_coordinates ::
  "world \<Rightarrow> pyfloat \<Rightarrow> pyfloat \<Rightarrow> (exn + crime_data) \<times> world" where
  "get_crime_from_coordinates w lat lon =
     (let is_brooklyn_11212 =
            (f_between (4065 / 100) lat (4070 / 100) \<and> f_between (- 7395 / 100) lon (- 7390 / 100))
      in if is_brooklyn_11212 then
           (Inr (estimate 85 75 18 ''coordinate_estimation_brooklyn_high_crime''), w)
         else
     (let is_brooklyn =
            (f_between (4060 / 100) lat (4075 / 100) \<and> f_between (- 7405 / 100) lon (- 7385 / 100))
      in if is_brooklyn then
           (let lat_variation = f_times (f_abs (f_plus lat (- 406782 / 10000))) 15;
                lon_variation = f_times (f_abs (f_plus lon (739442 / 10000))) 15
            in (then_exn (py_int (f_plus lat_variation 65)) (\<lambda>violent.
                then_exn (py_int (f_plus (f_times lat_variation (8 / 10)) 55)) (\<lambda>property.
                then_exn (py_int (f_plus (f_times lat_variation (1 / 3)) 12)) (\<lambda>recent.
                Inr (estimate (min 100 violent) (min 100 property) (min 25 recent)
                       ''coordinate_estimation_brooklyn'')))), w))
         else
     (let is_manhattan =
            (f_between (4070 / 100) lat (4080 / 100) \<and> f_between (- 7405 / 100) lon (- 7390 / 100))
      in if is_manhattan then
           (then_exn (perturbed 50 lat 15) (\<lambda>violent.
            then_exn (perturbed 60 lon 10) (\<lambda>property.
            then_exn (perturbed 10 lat 3) (\<lambda>recent.
            Inr (estimate (min 100 violent) (min 100 property) (min 20 recent)
                   ''coordinate_estimation_manhattan'')))), w)
         else
     (let is_nyc =
            (f_between (4050 / 100) lat (4090 / 100) \<and> f_between (- 7430 / 100) lon (- 7370 / 100))
      in if is_nyc then
           (then_exn (perturbed 55 lat 20) (\<lambda>violent.
            then_exn (perturbed 50 lon 15) (\<lambda>property.
            then_exn (perturbed 10 lat 4) (\<lambda>recent.
            Inr (estimate (min 100 violent) (min 100 property) (min 20 recent)
                   ''coordinate_estimation_nyc'')))), w)
         else
     (let is_urban = True
      in if is_urban then
           (then_exn (perturbed 45 lat 20) (\<lambda>violent.
            then_exn (perturbed 40 lon 15) (\<lambda>property.
            then_exn (perturbed 8 lat 5) (\<lambda>recent.
            Inr (estimate (min 100 violent) (min 100 property) (min 20 recent)
                   ''coordinate_estimation_urban'')))), w)
         else (case simulate_crime w of (result, w1) \<Rightarrow> (Inr result, w1)))))))"

text \<open>
  The first two blocks of \<^verbatim>\<open>get_crime_data\<close> have one shape: with a city name that is
  not empty and two coordinates that are true as conditions, query the city's portal. The
  arguments \<^verbatim>\<open>latitude\<close> and \<^verbatim>\<open>longitude\<close> of the source, which may be \<^verbatim>\<open>None\<close>, are
  \<open>opt_lat\<close> and \<open>opt_lon\<close>.
\<close>

definition query_with_coordinates ::
  "world \<Rightarrow> string option \<Rightarrow> pyfloat option \<Rightarrow> pyfloat option \<Rightarrow> crime_data option \<times> world" where
  "query_with_coordinates w city opt_lat opt_lon =
     (case city of
        None \<Rightarrow> (None, w)
      | Some c \<Rightarrow>
          (case opt_lat of
             None \<Rightarrow> (None, w)
           | Some lat \<Rightarrow>
               (case opt_lon of
                  None \<Rightarrow> (None, w)
                | Some lon \<Rightarrow>
                    if c \<noteq> [] \<and> f_truthy lat \<and> f_truthy lon
                    then query_city_crime_api w c lat lon
                    else (None, w))))"

text \<open>A city hint is false as a condition when it is \<^verbatim>\<open>None\<close> or empty.\<close>

definition no_city :: "string option \<Rightarrow> bool" where
  "no_city city = (case city of None \<Rightarrow> True | Some c \<Rightarrow> c = [])"

text \<open>
  The inner \<^verbatim>\<open>try\<close> of \<^verbatim>\<open>get_crime_data\<close>: geocode the address for its coordinates.
  \<open>Some\<close> is a value the block returns; \<open>None\<close> is leaving the block without one, after
  no location or after an exception, which the block's handler only logs.
\<close>

definition geocode_and_estimate ::
  "world \<Rightarrow> string \<Rightarrow> string option \<Rightarrow> crime_data option \<times> world" where
  "geocode_and_estimate w address city =
     (let w1 = record_call (Geocode address) w
      in case nominatim_geocode w address of
           Inl geo_error \<Rightarrow> (None, w1)
         | Inr None \<Rightarrow> (None, w1)
         | Inr (Some loc) \<Rightarrow>
             (let (api_result, w2) =
                    (if no_city city then
                       (case detect_city_from_address address of
                          None \<Rightarrow> (None, w1)
                        | Some detected_city \<Rightarrow>
                            query_city_crime_api w1 detected_city
                              (loc_latitude loc) (loc_longitude loc))
                     else (None, w1))
              in case api_result of
                   Some found \<Rightarrow> (Some found, w2)
                 | None \<Rightarrow>
                     (case get_crime_from_coordinates w2 (loc_latitude loc) (loc_longitude loc) of
                        (Inl geo_error, w3) \<Rightarrow> (None, w3)
                      | (Inr result, w3) \<Rightarrow>
                          (Some (result\<lparr>crime_source := Some ''coordinate_based''\<rparr>), w3))))"

text \<open>The end of the outer \<^verbatim>\<open>try\<close>, reached when a coordinate is \<^verbatim>\<open>None\<close>.\<close>

definition without_coordinates ::
  "world \<Rightarrow> string \<Rightarrow> string option \<Rightarrow> (exn + crime_data) \<times> world" where
  "without_coordinates w address city =
     (case geocode_and_estimate w address city of
        (Some result, w1) \<Rightarrow> (Inr result, w1)
      | (None, w1) \<Rightarrow>
          (let (result, w2) = simulate_crime w1;
               result = result\<lparr>crime_source := Some ''simulated''\<rparr>
           in (Inr result, w2)))"

text \<open>The body of the outer \<^verbatim>\<open>try\<close>: \<open>Inl\<close> is an exception that leaves it.\<close>

definition get_crime_data_try ::
  "world \<Rightarrow> string \<Rightarrow> pyfloat option \<Rightarrow> pyfloat option \<Rightarrow> string option \<Rightarrow>
   (exn + crime_data) \<times> world" where
  "get_crime_data_try w address opt_lat opt_lon city =
     (case query_with_coordinates w city opt_lat opt_lon of
        (Some api_result, w1) \<Rightarrow> (Inr api_result, w1)
      | (None, w1) \<Rightarrow>
     (case query_with_coordinates w1
             (if no_city city \<and> address \<noteq> [] then detect_city_from_address address else None)
             opt_lat opt_lon of
        (Some api_result, w2) \<Rightarrow> (Inr api_result, w2)
      | (None, w2) \<Rightarrow>
     (case (opt_lat, opt_lon) of
        (Some lat, Some lon) \<Rightarrow>
          (case get_crime_from_coordinates w2 lat lon of
             (Inl e, w3) \<Rightarrow> (Inl e, w3)
           | (Inr result, w3) \<Rightarrow>
               (Inr (if crime_source result = None
                     then result\<lparr>crime_source := Some ''coordinate_based''\<rparr>
                     else result), w3))
      | (Some lat, None) \<Rightarrow> without_coordinates w2 address city
      | (None, any_lon) \<Rightarrow> without_coordinates w2 address city)))"

definition get_crime_data ::
  "world \<Rightarrow> string \<Rightarrow> pyfloat option \<Rightarrow> pyfloat option \<Rightarrow> string option \<Rightarrow>
   (exn + crime_data) \<times> world" where
  "get_crime_data w address opt_lat opt_lon city =
     (case get_crime_data_try w address opt_lat opt_lon city of
        (Inr result, w1) \<Rightarrow> (Inr result, w1)
      | (Inl e, w1) \<Rightarrow>
          (let (result, w2) = simulate_crime w1;
               result = result\<lparr>crime_source := Some ''simulated_error''\<rparr>
           in (Inr result, w2)))"

section \<open>Example inputs\<close>

text \<open>The dimension scores of the aggregation example of the specification.\<close>

definition example_dims :: "string \<rightharpoonup> int" where
  "example_dims =
     [''crime_risk'' \<mapsto> 50, ''property_exposure_risk'' \<mapsto> 40, ''accessibility_risk'' \<mapsto> 30,
      ''neighborhood_risk'' \<mapsto> 20, ''operational_risk'' \<mapsto> 10]"

text \<open>A crime dictionary and a geolocation dictionary with a given provenance tag.\<close>

definition example_crime :: "string \<Rightarrow> crime_data" where
  "example_crime tag =
     \<lparr>violent_crime_index = Some 50, property_crime_index = Some 40,
      recent_incidents = Some 10, crime_source = Some tag,
      total_incidents_analyzed = None, data_period_days = None\<rparr>"

definition example_geo :: "string \<Rightarrow> geo_data" where
  "example_geo tag =
     \<lparr>latitude = Some (Finite (407128 / 10000)), longitude = Some (Finite (- 740060 / 10000)),
      neighborhood_type = Some ''urban'', population_density = Some 8000,
      nearby_risks = Some [''nightclub'', ''warehouse'', ''school''],
      geo_source = Some tag, formatted_address = Some ''New York''\<rparr>"



text \<open>The provenance tags of the four city queries.\<close>

definition api_tags :: "string list" where
  "api_tags = [''chicago_api_realtime'', ''nypd_api'', ''la_api'', ''sf_api'']"

text \<open>
  A world in which no service answers and the random number generator counts upwards; the
  same world with a Chicago portal that answers with one row; the same world with a
  geocoder that raises.
\<close>

definition quiet_world :: world where
  "quiet_world =
     \<lparr>calls = [], rng = (\<lambda>n. n), rng_pos = 0, GOOGLE_MAPS_API_KEY = None,
      google_geocode = (\<lambda>address. None), nominatim_geocode = (\<lambda>address. Inr None),
      photon_geocode = (\<lambda>address. None), seven_days_ago = ''2024-01-08'',
      chicago_dated = RequestError, chicago_undated = RequestError,
      nyc_reply = RequestError, la_reply = RequestError, sf_reply = RequestError\<rparr>"


definition failing_geocoder_world :: world where
  "failing_geocoder_world = quiet_world\<lparr>nominatim_geocode := (\<lambda>address. Inl GeocoderError)\<rparr>"

section \<open>Rounding\<close>





section \<open>The aggregator\<close>

lemma confidence_value:
  "snd (compute_overall_score dims crime geo) =
     (if field_get (crime_source crime) ''simulated'' \<noteq> ''simulated'' \<and>
         field_get (geo_source geo) ''simulated'' \<noteq> ''simulated'' then 1
      else if field_get (crime_source crime) ''simulated'' = ''simulated'' \<and>
         field_get (geo_source geo) ''simulated'' \<noteq> ''simulated'' then 7 / 10
      else 1 / 2)"
  by (simp add: compute_overall_score_def Let_def)

lemma example_score: "fst (compute_overall_score example_dims crime geo) = 36"
  by (simp add: compute_overall_score_def example_dims_def dict_get_def Let_def
      py_round_ndigits_def py_round_def)

text \<open>
  Claim C1. The confidence is 1.0 when neither source is simulated, 0.5 when both are, and
  0.7 when exactly one is, whichever of the two it is. The code gives 0.7 only when the
  crime source is the simulated one: with a real crime source and a simulated geolocation
  source the last branch is taken and the confidence is 0.5, while the mirrored input
  gets 0.7.
\<close>

theorem confidence_real_crime_simulated_geo:
  "snd (compute_overall_score dims (example_crime ''nypd_api'') (example_geo ''simulated''))
     = 5 / 10 \<and>
   snd (compute_overall_score dims (example_crime ''simulated'') (example_geo ''nominatim''))
     = 7 / 10"
  by (simp add: confidence_value field_get_def example_crime_def example_geo_def)

text \<open>
  Claim C2. The confidence depends only on whether each provenance is one of the tags
  \<^verbatim>\<open>simulated\<close>, \<^verbatim>\<open>simulated_fallback\<close>, \<^verbatim>\<open>simulated_empty_address\<close>, \<^verbatim>\<open>simulated_error\<close>. The
  code compares with the one string \<^verbatim>\<open>simulated\<close>: a geolocation result tagged
  \<^verbatim>\<open>simulated_fallback\<close> counts as real (confidence 1.0 beside a real crime source,
  where the tag \<^verbatim>\<open>simulated\<close> gives 0.5), and the pair \<^verbatim>\<open>simulated_error\<close>,
  \<^verbatim>\<open>simulated_empty_address\<close> has confidence 1.0.
\<close>

theorem confidence_simulated_family_counts_as_real:
  "snd (compute_overall_score dims (example_crime ''nypd_api'')
          (example_geo ''simulated_fallback'')) = 1 \<and>
   snd (compute_overall_score dims (example_crime ''nypd_api'')
          (example_geo ''simulated'')) = 5 / 10 \<and>
   snd (compute_overall_score dims (example_crime ''simulated_error'')
          (example_geo ''simulated_empty_address'')) = 1"
  by (simp add: confidence_value field_get_def example_crime_def example_geo_def)

text \<open>
  Claim C3. For the dimension scores 50, 40, 30, 20, 10 and two real sources the
  specification expects the overall score 36.5. The weighted sum is
  17.5 + 10 + 4.5 + 3 + 1 = 36, so the pair returned is not (36.5, 1.0).
\<close>

theorem example_score_is_not_36_5:
  "compute_overall_score example_dims (example_crime ''nypd_api'') (example_geo ''nominatim'')
     \<noteq> (73 / 2, 1)"
proof
  assume "compute_overall_score example_dims (example_crime ''nypd_api'')
            (example_geo ''nominatim'') = (73 / 2, 1)"
  then have "fst (compute_overall_score example_dims (example_crime ''nypd_api'')
                    (example_geo ''nominatim'')) = 73 / 2"
    by simp
  then show False
    by (simp add: example_score)
qed

text \<open>
  Claim C3, as amended: for these dimension scores and two sources that are not tagged
  \<^verbatim>\<open>simulated\<close>, the overall score is 36.0 and the confidence 1.0.
\<close>

theorem example_score_is_36:
  assumes "field_get (crime_source crime) ''simulated'' \<noteq> ''simulated''"
      and "field_get (geo_source geo) ''simulated'' \<noteq> ''simulated''"
  shows "compute_overall_score example_dims crime geo = (36, 1)"
proof -
  have "snd (compute_overall_score example_dims crime geo) = 1"
    using assms by (simp add: confidence_value)
  with example_score [of crime geo] show ?thesis
    by (simp add: prod_eq_iff)
qed

theorem example_score_is_36_witness:
  "field_get (crime_source (example_crime ''nypd_api'')) ''simulated'' \<noteq> ''simulated'' \<and>
   field_get (geo_source (example_geo ''nominatim'')) ''simulated'' \<noteq> ''simulated'' \<and>
   compute_overall_score example_dims (example_crime ''nypd_api'') (example_geo ''nominatim'')
     = (36, 1)"
proof -
  have c: "field_get (crime_source (example_crime ''nypd_api'')) ''simulated'' \<noteq> ''simulated''"
    by (simp add: example_crime_def field_get_def)
  have g: "field_get (geo_source (example_geo ''nominatim'')) ''simulated'' \<noteq> ''simulated''"
    by (simp add: example_geo_def field_get_def)
  show ?thesis
    using c g example_score_is_36 [OF c g] by simp
qed

section \<open>The recommendation tiers\<close>

text \<open>
  Claim C8. The tiers are exclusive and exhaustive, with strict lower bounds: above 75
  the list of five, above 60 and up to 75 the enhanced list of three, above 40 and up to
  60 the standard list of three, otherwise the single baseline advisory. The list is
  never empty; 75.0 does not get the list of five and 75.01 does.
\<close>

theorem recommendation_tiers:
  "(75 < score \<longrightarrow> length (generate_recommendations score) = 5 \<and>
      hd (generate_recommendations score) = ''Install advanced CCTV with remote monitoring'') \<and>
   (60 < score \<and> score \<le> 75 \<longrightarrow> length (generate_recommendations score) = 3 \<and>
      hd (generate_recommendations score) = ''Install 1080p CCTV cameras'') \<and>
   (40 < score \<and> score \<le> 60 \<longrightarrow> length (generate_recommendations score) = 3 \<and>
      hd (generate_recommendations score) = ''Install basic CCTV'') \<and>
   (score \<le> 40 \<longrightarrow> generate_recommendations score = [''Basic home security recommended'']) \<and>
   generate_recommendations score \<noteq> [] \<and>
   length (generate_recommendations 75) \<noteq> 5 \<and>
   length (generate_recommendations (7501 / 100)) = 5"
  by (simp add: generate_recommendations_def)

theorem recommendation_tiers_witness:
  "(75 :: real) < 80 \<and> length (generate_recommendations 80) = 5 \<and>
   (60 :: real) < 75 \<and> length (generate_recommendations 75) = 3 \<and>
   hd (generate_recommendations 75) = ''Install 1080p CCTV cameras'' \<and>
   (40 :: real) < 60 \<and> length (generate_recommendations 60) = 3 \<and>
   hd (generate_recommendations 60) = ''Install basic CCTV'' \<and>
   generate_recommendations 40 = [''Basic home security recommended'']"
  using recommendation_tiers [of 80] recommendation_tiers [of 75]
    recommendation_tiers [of 60] recommendation_tiers [of 40]
  by simp

section \<open>The dimension scorer\<close>

















section \<open>The geolocation resolver\<close>






section \<open>The crime data resolver\<close>

subsection \<open>Estimation from coordinates\<close>

lemma coordinates_world: "snd (get_crime_from_coordinates w lat lon) = w"
  by (simp add: get_crime_from_coordinates_def Let_def)

lemma estimate_source: "crime_source (estimate v p r tag) = Some tag"
  by (simp add: estimate_def)

lemma then_exn_Inr:
  "then_exn m f = Inr c \<Longrightarrow> \<exists>v. m = Inr v \<and> f v = Inr c"
  by (cases m) (simp_all add: then_exn_def)

lemma three_steps_source:
  assumes "then_exn m1 (\<lambda>v. then_exn m2 (\<lambda>p. then_exn m3 (\<lambda>r. Inr (estimate (g1 v) (g2 p) (g3 r) tag)))) = Inr c"
  shows "crime_source c = Some tag"
proof -
  from assms obtain v where "then_exn m2 (\<lambda>p. then_exn m3 (\<lambda>r. Inr (estimate (g1 v) (g2 p) (g3 r) tag))) = Inr c"
    by (blast dest: then_exn_Inr)
  then obtain p where "then_exn m3 (\<lambda>r. Inr (estimate (g1 v) (g2 p) (g3 r) tag)) = Inr c"
    by (blast dest: then_exn_Inr)
  then obtain r where "Inr (estimate (g1 v) (g2 p) (g3 r) tag) = (Inr c :: exn + crime_data)"
    by (blast dest: then_exn_Inr)
  then show ?thesis
    by (auto simp: estimate_source)
qed

lemma coordinates_source:
  assumes "fst (get_crime_from_coordinates w lat lon) = Inr c"
  shows "\<exists>tag. crime_source c = Some tag \<and> startswith tag ''coordinate_estimation_''"
  using assms
  by (auto simp: get_crime_from_coordinates_def Let_def estimate_source
      split: if_splits dest!: three_steps_source)

lemma coordinates_finite:
  "\<exists>c. get_crime_from_coordinates w (Finite a) (Finite b) = (Inr c, w)"
proof -
  have "\<exists>c. fst (get_crime_from_coordinates w (Finite a) (Finite b)) = Inr c"
    by (simp add: get_crime_from_coordinates_def Let_def perturbed_def then_exn_def)
  then show ?thesis
    using coordinates_world [of w "Finite a" "Finite b"] by (metis prod.collapse)
qed

lemma simulated_tag_is_no_estimate: "\<not> startswith ''simulated'' ''coordinate_estimation_''"
  by simp

lemma coordinates_keep_source:
  assumes "get_crime_from_coordinates w lat lon = (Inr c, w')"
  shows "crime_source c \<noteq> None" and "crime_source c \<noteq> Some ''simulated''" and "w' = w"
proof -
  from assms have "fst (get_crime_from_coordinates w lat lon) = Inr c"
    by simp
  then obtain tag where tag: "crime_source c = Some tag" "startswith tag ''coordinate_estimation_''"
    using coordinates_source by blast
  then show "crime_source c \<noteq> None"
    by simp
  from tag show "crime_source c \<noteq> Some ''simulated''"
    using simulated_tag_is_no_estimate by auto
  from assms coordinates_world [of w lat lon] show "w' = w"
    by simp
qed

lemma nan_raises:
  "get_crime_from_coordinates w NaN NaN = (Inl ValueError, w)"
  by (simp add: get_crime_from_coordinates_def perturbed_def then_exn_def)


lemma brooklyn_high_crime:
  "get_crime_from_coordinates w (Finite (1017 / 25)) (Finite (- (1848 / 25)))
     = (Inr (estimate 85 75 18 ''coordinate_estimation_brooklyn_high_crime''), w)"
  by (simp add: get_crime_from_coordinates_def)

subsection \<open>The provenance of a city query\<close>

lemma chicago_result_source:
  "chicago_result since data = Some r \<Longrightarrow> crime_source r = Some ''chicago_api_realtime''"
  by (auto simp: chicago_result_def Let_def split: if_splits prod.splits)

lemma counted_result_source:
  "counted_result vw pw lv lp factor tag descs = Some r \<Longrightarrow> crime_source r = Some tag"
  by (auto simp: counted_result_def Let_def split: if_splits prod.splits)

lemma single_request_result:
  "single_request url reply process w = (Some r, w') \<Longrightarrow> \<exists>data. process data = Some r"
  by (auto simp: single_request_def Let_def split: http_result.splits if_splits option.splits)

lemma query_chicago_source:
  "query_chicago_crime_api w lat lon = (Some r, w') \<Longrightarrow>
     crime_source r = Some ''chicago_api_realtime''"
  by (auto simp: query_chicago_crime_api_def Let_def
      split: http_result.splits if_splits option.splits dest: chicago_result_source)

lemma query_nyc_source:
  "query_nyc_crime_api w lat lon = (Some r, w') \<Longrightarrow> crime_source r = Some ''nypd_api''"
  unfolding query_nyc_crime_api_def
  by (blast dest: single_request_result counted_result_source)

lemma query_la_source:
  "query_la_crime_api w lat lon = (Some r, w') \<Longrightarrow> crime_source r = Some ''la_api''"
  unfolding query_la_crime_api_def
  by (blast dest: single_request_result counted_result_source)

lemma query_sf_source:
  "query_sf_crime_api w lat lon = (Some r, w') \<Longrightarrow> crime_source r = Some ''sf_api''"
  unfolding query_sf_crime_api_def
  by (blast dest: single_request_result counted_result_source)

lemma query_city_source:
  assumes "query_city_crime_api w c lat lon = (Some r, w')"
  shows "\<exists>tag. crime_source r = Some tag \<and> tag \<in> set api_tags"
  using assms
  by (auto simp: query_city_crime_api_def Let_def api_tags_def split: if_splits
      dest: query_chicago_source query_nyc_source query_la_source query_sf_source)

lemma query_with_coordinates_source:
  assumes "query_with_coordinates w city opt_lat opt_lon = (Some r, w')"
  shows "\<exists>tag. crime_source r = Some tag \<and> tag \<in> set api_tags"
  using assms
  by (auto simp: query_with_coordinates_def split: option.splits if_splits
      dest: query_city_source)

lemma simulated_tag_is_no_api_tag: "''simulated'' \<notin> set api_tags"
  by (simp add: api_tags_def)



subsection \<open>The fallback chain\<close>



lemma try_with_coordinates:
  assumes "query_with_coordinates w city (Some lat) (Some lon) = (None, w1)"
      and "query_with_coordinates w1
             (if no_city city \<and> address \<noteq> [] then detect_city_from_address address else None)
             (Some lat) (Some lon) = (None, w2)"
  shows "get_crime_data_try w address (Some lat) (Some lon) city = get_crime_from_coordinates w2 lat lon"
proof (cases "get_crime_from_coordinates w2 lat lon")
  case (Pair r w3)
  show ?thesis
  proof (cases r)
    case (Inl e)
    with Pair assms show ?thesis
      by (simp add: get_crime_data_try_def)
  next
    case (Inr c)
    with Pair have "crime_source c \<noteq> None"
      using coordinates_keep_source(1) by blast
    with Pair Inr assms show ?thesis
      by (simp add: get_crime_data_try_def)
  qed
qed

lemma without_coordinates_returns:
  "\<exists>c w1. without_coordinates w address city = (Inr c, w1)"
  by (cases "geocode_and_estimate w address city")
    (auto simp: without_coordinates_def Let_def split_beta split: option.splits)

lemma try_without_coordinates:
  assumes "opt_lat = None \<or> opt_lon = None"
  shows "\<exists>c w1. get_crime_data_try w address opt_lat opt_lon city = (Inr c, w1)"
proof -
  have none: "query_with_coordinates v hint opt_lat opt_lon = (None, v)" for v hint
    using assms by (auto simp: query_with_coordinates_def split: option.splits)
  have "get_crime_data_try w address opt_lat opt_lon city = without_coordinates w address city"
    using assms by (auto simp: get_crime_data_try_def none split: option.splits)
  then show ?thesis
    using without_coordinates_returns by simp
qed

lemma try_source_with_coordinates:
  assumes "get_crime_data_try w address (Some lat) (Some lon) city = (Inr c, w')"
  shows "crime_source c \<noteq> Some ''simulated''"
proof (cases "query_with_coordinates w city (Some lat) (Some lon)")
  case first: (Pair r1 w1)
  show ?thesis
  proof (cases r1)
    case (Some found)
    with first assms have "c = found"
      by (simp add: get_crime_data_try_def)
    with first Some show ?thesis
      using query_with_coordinates_source simulated_tag_is_no_api_tag by fastforce
  next
    case None
    show ?thesis
    proof (cases "query_with_coordinates w1
             (if no_city city \<and> address \<noteq> [] then detect_city_from_address address else None)
             (Some lat) (Some lon)")
      case second: (Pair r2 w2)
      show ?thesis
      proof (cases r2)
        case (Some found)
        with first None second assms have "c = found"
          by (simp add: get_crime_data_try_def)
        with second Some show ?thesis
          using query_with_coordinates_source simulated_tag_is_no_api_tag by fastforce
      next
        case r2: None
        from first None have a: "query_with_coordinates w city (Some lat) (Some lon) = (None, w1)"
          by simp
        from second r2 have b: "query_with_coordinates w1
             (if no_city city \<and> address \<noteq> [] then detect_city_from_address address else None)
             (Some lat) (Some lon) = (None, w2)"
          by simp
        from try_with_coordinates [OF a b] assms
        have "get_crime_from_coordinates w2 lat lon = (Inr c, w')"
          by simp
        then show ?thesis
          by (rule coordinates_keep_source(2))
      qed
    qed
  qed
qed



lemma lower_main_street: "lower ''1 Main St'' = ''1 main st''"
  by (simp add: lower_def lower_char_def ascii_upper_def ascii_lower_def)

lemma detect_main_street: "detect_city_from_address ''1 Main St'' = None"
  by (simp add: detect_city_from_address_def lower_main_street city_priority_def)

lemma try_nan_raises:
  "get_crime_data_try w ''1 Main St'' (Some NaN) (Some NaN) None = (Inl ValueError, w)"
  by (simp add: get_crime_data_try_def query_with_coordinates_def no_city_def
      detect_main_street nan_raises)

lemma geocoder_failure_is_absorbed:
  "fst (get_crime_data_try failing_geocoder_world ''1 Main St'' None None None)
     = Inr \<lparr>violent_crime_index = Some 20, property_crime_index = Some 16,
            recent_incidents = Some 2, crime_source = Some ''simulated'',
            total_incidents_analyzed = None, data_period_days = None\<rparr>"
  by (simp add: get_crime_data_try_def query_with_coordinates_def without_coordinates_def
      geocode_and_estimate_def failing_geocoder_world_def quiet_world_def record_call_def
      no_city_def detect_main_street simulate_crime_def randint_def next_rand_def Let_def
      split_beta)

text \<open>
  Claim C5. \<open>get_crime_data\<close> never raises: for every world, address, pair of optional
  coordinates and optional city hint it returns a crime dictionary. When an exception
  leaves the body of its \<^verbatim>\<open>try\<close>, the dictionary returned is tagged \<^verbatim>\<open>simulated_error\<close>.
  Failures of the providers do not get that far: the city queries turn them into
  \<^verbatim>\<open>None\<close>, and when a coordinate is missing, so that the geocoder is asked, the body
  returns whatever the geocoder does.
\<close>

theorem get_crime_data_never_raises:
  "\<exists>result w'.
     get_crime_data w address opt_lat opt_lon city = (Inr result, w') \<and>
     (\<forall>e. fst (get_crime_data_try w address opt_lat opt_lon city) = Inl e \<longrightarrow>
        crime_source result = Some ''simulated_error'') \<and>
     (opt_lat = None \<or> opt_lon = None \<longrightarrow>
        fst (get_crime_data_try w address opt_lat opt_lon city) = Inr result)"
proof (cases "get_crime_data_try w address opt_lat opt_lon city")
  case (Pair r w1)
  show ?thesis
  proof (cases r)
    case (Inl e)
    have "\<not> (opt_lat = None \<or> opt_lon = None)"
    proof
      assume "opt_lat = None \<or> opt_lon = None"
      then obtain c w2 where "get_crime_data_try w address opt_lat opt_lon city = (Inr c, w2)"
        using try_without_coordinates by blast
      with Pair Inl show False
        by simp
    qed
    with Pair Inl show ?thesis
      by (simp add: get_crime_data_def Let_def split_beta)
  next
    case (Inr c)
    with Pair show ?thesis
      by (simp add: get_crime_data_def)
  qed
qed

theorem get_crime_data_never_raises_witness:
  "fst (get_crime_data_try quiet_world ''1 Main St'' (Some NaN) (Some NaN) None)
     = Inl ValueError \<and>
   (\<exists>result w'.
      get_crime_data quiet_world ''1 Main St'' (Some NaN) (Some NaN) None = (Inr result, w') \<and>
      crime_source result = Some ''simulated_error'') \<and>
   (\<exists>result w'.
      get_crime_data failing_geocoder_world ''1 Main St'' None None None = (Inr result, w') \<and>
      crime_source result = Some ''simulated'')"
proof -
  have "\<exists>result w'.
      get_crime_data quiet_world ''1 Main St'' (Some NaN) (Some NaN) None = (Inr result, w') \<and>
      crime_source result = Some ''simulated_error''"
    using get_crime_data_never_raises [of quiet_world "''1 Main St''" "Some NaN" "Some NaN" None]
      try_nan_raises [of quiet_world]
    by auto
  moreover have "\<exists>result w'.
      get_crime_data failing_geocoder_world ''1 Main St'' None None None = (Inr result, w') \<and>
      crime_source result = Some ''simulated''"
    using get_crime_data_never_raises [of failing_geocoder_world "''1 Main St''" None None None]
      geocoder_failure_is_absorbed
    by auto
  ultimately show ?thesis
    using try_nan_raises [of quiet_world] by simp
qed



text \<open>
  Claim C10. For every pair of finite coordinates \<open>get_crime_from_coordinates\<close> returns
  the result of one of its regions, tagged \<^verbatim>\<open>coordinate_estimation_\<close> and a region name.
  Whatever the two floats are, a result it returns carries such a tag and the random
  number generator has not been used: the call of \<^verbatim>\<open>simulate_crime\<close> at its end is never
  reached (a float that is not finite makes \<^verbatim>\<open>int\<close> raise in the last region instead).
  So \<open>get_crime_data\<close> never returns the provenance \<^verbatim>\<open>simulated\<close> when both coordinates
  are given.
\<close>

theorem coordinate_estimation_always_matches:
  "(\<exists>result tag.
      get_crime_from_coordinates w (Finite a) (Finite b) = (Inr result, w) \<and>
      crime_source result = Some tag \<and> startswith tag ''coordinate_estimation_'') \<and>
   (\<forall>result w'.
      get_crime_from_coordinates w lat lon = (Inr result, w') \<longrightarrow>
      w' = w \<and>
      (\<exists>tag. crime_source result = Some tag \<and> startswith tag ''coordinate_estimation_'')) \<and>
   (\<forall>result w'.
      get_crime_data w address (Some lat) (Some lon) city = (Inr result, w') \<longrightarrow>
      crime_source result \<noteq> Some ''simulated'')"
proof (intro conjI allI impI)
  obtain c where c: "get_crime_from_coordinates w (Finite a) (Finite b) = (Inr c, w)"
    using coordinates_finite by blast
  then have "fst (get_crime_from_coordinates w (Finite a) (Finite b)) = Inr c"
    by simp
  with c show "\<exists>result tag.
      get_crime_from_coordinates w (Finite a) (Finite b) = (Inr result, w) \<and>
      crime_source result = Some tag \<and> startswith tag ''coordinate_estimation_''"
    using coordinates_source by blast
next
  fix result w'
  assume "get_crime_from_coordinates w lat lon = (Inr result, w')"
  then show "w' = w"
    by (rule coordinates_keep_source(3))
next
  fix result w'
  assume "get_crime_from_coordinates w lat lon = (Inr result, w')"
  then have "fst (get_crime_from_coordinates w lat lon) = Inr result"
    by simp
  then show "\<exists>tag. crime_source result = Some tag \<and> startswith tag ''coordinate_estimation_''"
    by (rule coordinates_source)
next
  fix result w'
  assume r: "get_crime_data w address (Some lat) (Some lon) city = (Inr result, w')"
  show "crime_source result \<noteq> Some ''simulated''"
  proof (cases "get_crime_data_try w address (Some lat) (Some lon) city")
    case (Pair t w1)
    show ?thesis
    proof (cases t)
      case (Inl e)
      with Pair r have "crime_source result = Some ''simulated_error''"
        by (auto simp: get_crime_data_def Let_def split_beta)
      then show ?thesis
        by simp
    next
      case (Inr c)
      with Pair r have "c = result"
        by (simp add: get_crime_data_def)
      with Pair Inr show ?thesis
        using try_source_with_coordinates by blast
    qed
  qed
qed

theorem coordinate_estimation_always_matches_witness:
  "get_crime_from_coordinates quiet_world (Finite (1017 / 25)) (Finite (- (1848 / 25)))
     = (Inr (estimate 85 75 18 ''coordinate_estimation_brooklyn_high_crime''), quiet_world) \<and>
   get_crime_data quiet_world ''1 Main St'' (Some (Finite (1017 / 25)))
       (Some (Finite (- (1848 / 25)))) None
     = (Inr (estimate 85 75 18 ''coordinate_estimation_brooklyn_high_crime''), quiet_world) \<and>
   crime_source (estimate 85 75 18 ''coordinate_estimation_brooklyn_high_crime'')
     = Some ''coordinate_estimation_brooklyn_high_crime'' \<and>
   startswith ''coordinate_estimation_brooklyn_high_crime'' ''coordinate_estimation_'' \<and>
   crime_source (estimate 85 75 18 ''coordinate_estimation_brooklyn_high_crime'')
     \<noteq> Some ''simulated''"
proof -
  have e: "get_crime_from_coordinates quiet_world (Finite (1017 / 25)) (Finite (- (1848 / 25)))
     = (Inr (estimate 85 75 18 ''coordinate_estimation_brooklyn_high_crime''), quiet_world)"
    by (rule brooklyn_high_crime)
  have "get_crime_data_try quiet_world ''1 Main St'' (Some (Finite (1017 / 25)))
       (Some (Finite (- (1848 / 25)))) None
     = (Inr (estimate 85 75 18 ''coordinate_estimation_brooklyn_high_crime''), quiet_world)"
    by (simp add: get_crime_data_try_def query_with_coordinates_def no_city_def
        detect_main_street brooklyn_high_crime estimate_source)
  then have d: "get_crime_data quiet_world ''1 Main St'' (Some (Finite (1017 / 25)))
       (Some (Finite (- (1848 / 25)))) None
     = (Inr (estimate 85 75 18 ''coordinate_estimation_brooklyn_high_crime''), quiet_world)"
    by (simp add: get_crime_data_def)
  from e d coordinate_estimation_always_matches [of quiet_world "1017 / 25" "- (1848 / 25)"
      "Finite (1017 / 25)" "Finite (- (1848 / 25))" "''1 Main St''" None]
  show ?thesis
    by (auto simp: estimate_source)
qed

end
